theory Spec2Isabelle
  imports Complex_Main
begin

text \<open>
  The scope partitioner and the single-agent loops of the trainer, the update and the
  exploration of DDPG, the tabular update of SARSA and the role dictionaries of the
  multivariate Gaussian mixin of skrl, as functions on explicit states, and the properties
  C1 to C10 of them.
\<close>

section \<open>Errors\<close>

text \<open>
  Every \<^verbatim>\<open>raise\<close> of the sources is a value. The four \<^verbatim>\<open>ValueError\<close>s of the trainer
  are told apart by their message, whose formatted numbers are kept.
\<close>

datatype value_error =
    AgentsGreaterThanEnvs int int
  | AgentsDontMatchScopes int int
  | ScopesDontCover int int
  | AgentsListExpected

datatype error =
    ValueError value_error
  | ZeroDivisionError
  | IndexError
  | TypeError
  | AttributeError
  | KeyError string
  | RuntimeError
  | AssertionError

section \<open>Trainer: scopes of the agents (skrl/trainers/torch/base.py)\<close>

text \<open>
  \<^verbatim>\<open>int(num_envs / num_agents)\<close>: a true division followed by truncation towards zero.
  The quotient of two counts is taken exactly (the counts are far below \<open>2^52\<close>, where the
  float quotient truncates to the same integer); a zero divisor raises.
\<close>

definition int_truediv :: "int \<Rightarrow> int \<Rightarrow> error + int" where
  "int_truediv a b =
     (if b = 0 then Inl ZeroDivisionError
      else Inr (sgn a * sgn b * (\<bar>a\<bar> div \<bar>b\<bar>)))"

text \<open>\<^verbatim>\<open>scopes[-1] += d\<close>: the last entry of a list, \<^verbatim>\<open>IndexError\<close> on the empty list.\<close>

definition add_to_last :: "int list \<Rightarrow> int \<Rightarrow> error + int list" where
  "add_to_last scopes d =
     (if scopes = [] then Inl IndexError
      else Inr (scopes[length scopes - 1 := scopes ! (length scopes - 1) + d]))"

text \<open>\<^verbatim>\<open>[x] * n\<close> is the empty list when \<open>n \<le> 0\<close>; \<^verbatim>\<open>if sum(scopes):\<close> tests for non-zero.\<close>

definition generate_equally_spaced_scopes :: "int \<Rightarrow> int \<Rightarrow> error + int list" where
  "generate_equally_spaced_scopes num_envs num_agents =
     (case int_truediv num_envs num_agents of
        Inl e \<Rightarrow> Inl e
      | Inr q \<Rightarrow>
          (let scopes = replicate (nat num_agents) q in
           if sum_list scopes \<noteq> 0
           then add_to_last scopes (num_envs - sum_list scopes)
           else Inl (ValueError (AgentsGreaterThanEnvs num_agents num_envs))))"

text \<open>
  The argument \<^verbatim>\<open>agents\<close> is one agent or a tuple/list of agents. The list
  \<^verbatim>\<open>agents_scope\<close> holds integers (sizes) when it is given and, after the loop at the end
  of \<^verbatim>\<open>_setup_agents\<close> has overwritten every entry, pairs \<^verbatim>\<open>(lo, hi)\<close>.
\<close>

datatype 'a agents = Agent 'a | Agents "'a list"

datatype scopes = Sizes "int list" | Ranges "(int \<times> int) list"

record trainer_cfg =
  cfg_timesteps :: "int option"
  cfg_headless :: "bool option"

record 'a trainer =
  cfg :: trainer_cfg
  env_num_envs :: int
  agents :: "'a agents"
  agents_scope :: scopes
  timesteps :: int
  headless :: bool
  initial_timestep :: int
  num_agents :: int

text \<open>
  \<^verbatim>\<open>index = 0; for i in range(len(scope)): index += scope[i]; scope[i] = (index - scope[i], index)\<close>
\<close>

fun generate_ranges :: "int \<Rightarrow> int list \<Rightarrow> (int \<times> int) list" where
  "generate_ranges index [] = []"
| "generate_ranges index (s # scope) =
     (let index' = index + s in (index' - s, index') # generate_ranges index' scope)"

text \<open>
  The scope check of the branch for several agents. An \<^verbatim>\<open>agents_scope\<close> that already holds
  pairs has a length, but \<^verbatim>\<open>sum\<close> of it is a \<^verbatim>\<open>TypeError\<close>.
\<close>

definition check_scopes :: "int \<Rightarrow> nat \<Rightarrow> scopes \<Rightarrow> error + int list" where
  "check_scopes num_envs len_agents sc =
     (let len_scope = (case sc of Sizes xs \<Rightarrow> length xs | Ranges rs \<Rightarrow> length rs) in
      if len_scope = 0 then
        (case int_truediv num_envs (int len_agents) of
           Inl e \<Rightarrow> Inl e
         | Inr q \<Rightarrow>
             (let scope = replicate len_agents q in
              if sum_list scope \<noteq> 0
              then add_to_last scope (num_envs - sum_list scope)
              else Inl (ValueError (AgentsGreaterThanEnvs (int len_agents) num_envs))))
      else if len_scope \<noteq> len_agents then
        Inl (ValueError (AgentsDontMatchScopes (int len_agents) (int len_scope)))
      else (case sc of
              Ranges rs \<Rightarrow> Inl TypeError
            | Sizes xs \<Rightarrow>
                if sum_list xs \<noteq> num_envs
                then Inl (ValueError (ScopesDontCover (sum_list xs) num_envs))
                else Inr xs))"

definition setup_agents :: "'a trainer \<Rightarrow> error + 'a trainer" where
  "setup_agents tr =
     (case agents tr of
        Agents ags \<Rightarrow>
          if length ags = 1 then
            Inr (tr\<lparr>num_agents := 1, agents := Agent (ags ! 0), agents_scope := Sizes [1]\<rparr>)
          else if length ags > 1 then
            (let tr1 = tr\<lparr>num_agents := int (length ags)\<rparr> in
             case check_scopes (env_num_envs tr1) (length ags) (agents_scope tr1) of
               Inl e \<Rightarrow> Inl e
             | Inr scope \<Rightarrow> Inr (tr1\<lparr>agents_scope := Ranges (generate_ranges 0 scope)\<rparr>))
          else Inl (ValueError AgentsListExpected)
      | Agent a \<Rightarrow> Inr (tr\<lparr>num_agents := 1\<rparr>))"

text \<open>
  \<^verbatim>\<open>Trainer.__init__\<close>: the fields are set, then \<^verbatim>\<open>_setup_agents\<close> runs; an error leaves no
  trainer, so no loop can run on it.
\<close>

definition Trainer :: "int \<Rightarrow> 'a agents \<Rightarrow> int list \<Rightarrow> trainer_cfg \<Rightarrow> error + 'a trainer" where
  "Trainer num_envs ags scope c =
     setup_agents
       \<lparr>cfg = c, env_num_envs = num_envs, agents = ags, agents_scope = Sizes scope,
        timesteps = (case cfg_timesteps c of None \<Rightarrow> 0 | Some t \<Rightarrow> t),
        headless = (case cfg_headless c of None \<Rightarrow> False | Some h \<Rightarrow> h),
        initial_timestep = 0, num_agents = 0\<rparr>"

text \<open>The ranges of a list that hold the environment \<open>e\<close>.\<close>

definition covering :: "(int \<times> int) list \<Rightarrow> int \<Rightarrow> (int \<times> int) list" where
  "covering rs e = filter (\<lambda>(lo, hi). lo \<le> e \<and> e < hi) rs"

section \<open>Agents: what the algorithms share\<close>

text \<open>
  The base class \<^verbatim>\<open>Agent\<close>, the memories, the models, the optimizers, the schedulers and the
  preprocessors are objects behind interfaces. The calls an algorithm makes on the memories,
  the optimizers, the schedulers, the preprocessors, \<^verbatim>\<open>update_parameters\<close> of the target
  networks, \<^verbatim>\<open>track_data\<close> and the methods of the base class are recorded, in order, in the
  field \<open>calls\<close> of the agent. What the models, the noise and the memory return is an
  argument of the model of each method. Tensor entries are real numbers, and the tensors that
  hold one value per row of a batch are lists of the length of the batch.
\<close>

datatype call =
    SuperRecordTransition int int
  | SuperPostInteraction int int
  | MemoryAddSamples nat
  | MemorySample "string list" int
  | StatePreprocessor bool
  | OptimizerStep string
  | UpdateParameters string string real
  | SchedulerStep string
  | TrackData string real

text \<open>
  The attributes both algorithms read: \<open>memory\<close> tells whether a primary memory was given
  (\<^verbatim>\<open>self.memory is not None\<close>), \<open>secondary_memories\<close> counts the further ones.
\<close>

record agent =
  memory :: bool
  secondary_memories :: nat
  rewards_shaper :: "(real list \<Rightarrow> int \<Rightarrow> int \<Rightarrow> real list) option"
  discount_factor :: real
  random_timesteps :: int
  learning_starts :: int
  calls :: "call list"

section \<open>SARSA (skrl/agents/torch/sarsa/sarsa.py)\<close>

text \<open>
  The table of the policy, \<^verbatim>\<open>self.policy.table()\<close>, indexed by environment, state and
  action. States and actions of a tabular policy are indices of discrete spaces, so they are
  natural numbers; an index outside the table is an \<^verbatim>\<open>IndexError\<close>.
\<close>

type_synonym table = "real list list list"

definition in_table :: "table \<Rightarrow> nat \<Rightarrow> nat \<Rightarrow> nat \<Rightarrow> bool" where
  "in_table q e s a \<longleftrightarrow> e < length q \<and> s < length (q ! e) \<and> a < length (q ! e ! s)"

definition table_get :: "table \<Rightarrow> nat \<Rightarrow> nat \<Rightarrow> nat \<Rightarrow> real" where
  "table_get q e s a = q ! e ! s ! a"

definition table_put :: "table \<Rightarrow> nat \<Rightarrow> nat \<Rightarrow> nat \<Rightarrow> real \<Rightarrow> table" where
  "table_put q e s a v = q[e := (q ! e)[s := (q ! e ! s)[a := v]]]"

text \<open>
  The five \<^verbatim>\<open>_current_*\<close> attributes are \<^verbatim>\<open>None\<close> after \<^verbatim>\<open>__init__\<close> and are set together by
  \<^verbatim>\<open>record_transition\<close>; each holds one row per environment.
\<close>

record sarsa = agent +
  q_table :: table
  learning_rate :: real
  current_states :: "nat list option"
  current_actions :: "nat list option"
  current_rewards :: "real list option"
  current_next_states :: "nat list option"
  current_dones :: "bool list option"

text \<open>
  \<^verbatim>\<open>if self.memory is not None:\<close> the samples go to the primary memory (number 0) and to every
  secondary memory.
\<close>

definition add_samples :: "'a agent_scheme \<Rightarrow> 'a agent_scheme" where
  "add_samples ag =
     (if memory ag
      then ag\<lparr>calls := calls ag @ map MemoryAddSamples [0..<Suc (secondary_memories ag)]\<rparr>
      else ag)"

definition sarsa_record_transition ::
  "nat list \<Rightarrow> nat list \<Rightarrow> real list \<Rightarrow> nat list \<Rightarrow> bool list \<Rightarrow> int \<Rightarrow> int
     \<Rightarrow> sarsa \<Rightarrow> sarsa" where
  "sarsa_record_transition states actions rewards next_states dones timestep timesteps' ag =
     (let ag1 = ag\<lparr>calls := calls ag @ [SuperRecordTransition timestep timesteps']\<rparr>;
          rewards' = (case rewards_shaper ag1 of
                        None \<Rightarrow> rewards
                      | Some shaper \<Rightarrow> shaper rewards timestep timesteps')
      in add_samples
           (ag1\<lparr>current_states := Some states, current_actions := Some actions,
                current_rewards := Some rewards', current_next_states := Some next_states,
                current_dones := Some dones\<rparr>))"

text \<open>\<^verbatim>\<open>dones.logical_not()\<close> as a factor: 0 for a finished episode, 1 otherwise.\<close>

definition logical_not :: "bool \<Rightarrow> real" where
  "logical_not d = (if d then 0 else 1)"

text \<open>
  \<^verbatim>\<open>SARSA._update\<close>. The next actions are what \<^verbatim>\<open>self.policy.act\<close> returns on the table and the
  next states. The right-hand side of the \<^verbatim>\<open>+=\<close> is computed on the table as it is before the
  assignment; the assignment then writes one entry per environment. Batches whose tensors do not
  have one row per environment are rejected (broadcasting is not modelled).
\<close>

definition sarsa_update ::
  "(table \<Rightarrow> nat list \<Rightarrow> nat list) \<Rightarrow> int \<Rightarrow> int \<Rightarrow> sarsa \<Rightarrow> error + sarsa" where
  "sarsa_update policy_act timestep timesteps' ag =
     (case (current_rewards ag, current_states ag, current_actions ag,
            current_next_states ag, current_dones ag) of
        (Some rewards, Some states, Some actions, Some next_states, Some dones) \<Rightarrow>
          (let q = q_table ag;
               env_ids = [0..<length rewards];
               next_actions = policy_act q next_states
           in if \<not> (length states = length rewards \<and> length actions = length rewards
                     \<and> length next_states = length rewards \<and> length dones = length rewards
                     \<and> length next_actions = length rewards)
              then Inl RuntimeError
              else if \<not> (\<forall>e \<in> set env_ids.
                            in_table q e (states ! e) (actions ! e)
                          \<and> in_table q e (next_states ! e) (next_actions ! e))
              then Inl IndexError
              else Inr (ag\<lparr>q_table :=
                     fold (\<lambda>e q'. table_put q' e (states ! e) (actions ! e)
                             (table_get q e (states ! e) (actions ! e)
                              + learning_rate ag
                                * (rewards ! e
                                   + discount_factor ag * logical_not (dones ! e)
                                     * table_get q e (next_states ! e) (next_actions ! e)
                                   - table_get q e (states ! e) (actions ! e))))
                          env_ids q\<rparr>))
      | _ \<Rightarrow> Inl AttributeError)"

text \<open>
  \<^verbatim>\<open>SARSA.post_interaction\<close>: the update behind the test on \<^verbatim>\<open>learning_starts\<close>, then the
  method of the base class, which writes the tracked data and the checkpoints.
\<close>

definition sarsa_post_interaction ::
  "(table \<Rightarrow> nat list \<Rightarrow> nat list) \<Rightarrow> int \<Rightarrow> int \<Rightarrow> sarsa \<Rightarrow> error + sarsa" where
  "sarsa_post_interaction policy_act timestep timesteps' ag =
     (case (if timestep \<ge> learning_starts ag then sarsa_update policy_act timestep timesteps' ag
            else Inr ag) of
        Inl e \<Rightarrow> Inl e
      | Inr ag' \<Rightarrow> Inr (ag'\<lparr>calls := calls ag' @ [SuperPostInteraction timestep timesteps']\<rparr>))"

text \<open>A SARSA agent on one environment with two states and two actions.\<close>

definition sarsa_example :: sarsa where
  "sarsa_example =
     \<lparr>memory = False, secondary_memories = 0, rewards_shaper = None, discount_factor = 1 / 2,
      random_timesteps = 0, learning_starts = 0, calls = [],
      q_table = [[[0, 0], [1, 2]]], learning_rate = 1 / 2,
      current_states = None, current_actions = None, current_rewards = None,
      current_next_states = None, current_dones = None\<rparr>"

section \<open>DDPG (skrl/agents/torch/ddpg/ddpg.py)\<close>

text \<open>
  The configuration that \<^verbatim>\<open>__init__\<close> and \<^verbatim>\<open>init\<close> store. \<open>exploration_noise\<close> and
  \<open>learning_rate_scheduler\<close> tell whether the object was configured (is not \<^verbatim>\<open>None\<close>);
  \<open>exploration_timesteps\<close> is \<^verbatim>\<open>None\<close> until it is given or set by \<^verbatim>\<open>act\<close>.
\<close>

record ddpg = agent +
  gradient_steps :: int
  batch_size :: int
  polyak :: real
  learning_rate_scheduler :: bool
  exploration_noise :: bool
  exploration_initial_scale :: real
  exploration_final_scale :: real
  exploration_timesteps :: "int option"
  clip_actions_min :: "real list"
  clip_actions_max :: "real list"
  backward_compatibility :: bool

text \<open>
  What the collaborators return during one call of \<^verbatim>\<open>act\<close>: the random actions, the actions
  of the policy (\<^verbatim>\<open>actions[0]\<close>, one row per environment) and the sampled noise, of the shape
  of the actions.
\<close>

record act_inputs =
  random_actions :: "real list list"
  policy_actions :: "real list list"
  noise_sample :: "real list list"

text \<open>\<^verbatim>\<open>torch.max\<close>, \<^verbatim>\<open>torch.min\<close> and \<^verbatim>\<open>torch.mean\<close> over all entries (of a non-empty tensor).\<close>

definition tensor_max :: "real list \<Rightarrow> real" where
  "tensor_max xs = fold max (tl xs) (hd xs)"

definition tensor_min :: "real list \<Rightarrow> real" where
  "tensor_min xs = fold min (tl xs) (hd xs)"

definition tensor_mean :: "real list \<Rightarrow> real" where
  "tensor_mean xs = sum_list xs / real (length xs)"

text \<open>\<^verbatim>\<open>noises.mul_(scale)\<close> and \<^verbatim>\<open>actions[0].add_(noises)\<close>, entry by entry.\<close>

definition tensor_mul :: "real list list \<Rightarrow> real \<Rightarrow> real list list" where
  "tensor_mul xss c = map (map (\<lambda>x. x * c)) xss"

definition tensor_add :: "real list list \<Rightarrow> real list list \<Rightarrow> real list list" where
  "tensor_add xss yss = map (\<lambda>(xs, ys). map (\<lambda>(x, y). x + y) (zip xs ys)) (zip xss yss)"

text \<open>
  The value assigned to \<^verbatim>\<open>scale\<close> when \<^verbatim>\<open>timestep <= self._exploration_timesteps\<close>; the
  quotient of the two integers is a true division.
\<close>

definition exploration_scale :: "int \<Rightarrow> int \<Rightarrow> real \<Rightarrow> real \<Rightarrow> real" where
  "exploration_scale timestep decay initial_scale final_scale =
     (1 - real_of_int timestep / real_of_int decay) * (initial_scale - final_scale) + final_scale"

text \<open>
  The clipping of every row to the bounds of the action space: \<^verbatim>\<open>max(min(a, high), low)\<close> for
  torch before 1.9 and \<^verbatim>\<open>clamp_(min=low, max=high)\<close> otherwise.
\<close>

definition clip_actions :: "bool \<Rightarrow> real list \<Rightarrow> real list \<Rightarrow> real list list \<Rightarrow> real list list" where
  "clip_actions backward lo hi actions =
     map (\<lambda>row. map (\<lambda>(x, l, h). if backward then max (min x h) l else min (max x l) h)
                  (zip row (zip lo hi))) actions"

text \<open>
  \<^verbatim>\<open>DDPG.act\<close>, returning the actions and the agent. A decay of 0 timesteps divides by zero
  at timestep 0.
\<close>

definition ddpg_act :: "act_inputs \<Rightarrow> int \<Rightarrow> int \<Rightarrow> ddpg \<Rightarrow> error + (real list list \<times> ddpg)" where
  "ddpg_act inp timestep timesteps' ag =
     (let ag1 = ag\<lparr>calls := calls ag @ [StatePreprocessor False]\<rparr> in
      if timestep < random_timesteps ag1 then Inr (random_actions inp, ag1)
      else
        (let actions = policy_actions inp in
         if exploration_noise ag1 then
           (let noises = noise_sample inp;
                decay = (case exploration_timesteps ag1 of None \<Rightarrow> timesteps' | Some d \<Rightarrow> d);
                ag2 = ag1\<lparr>exploration_timesteps := Some decay\<rparr>
            in if timestep \<le> decay then
                 (if decay = 0 then Inl ZeroDivisionError
                  else
                    (let scale = exploration_scale timestep decay
                                   (exploration_initial_scale ag2) (exploration_final_scale ag2);
                         noises' = tensor_mul noises scale;
                         actions' = clip_actions (backward_compatibility ag2)
                                      (clip_actions_min ag2) (clip_actions_max ag2)
                                      (tensor_add actions noises')
                     in if concat noises' = [] then Inl RuntimeError
                        else Inr (actions',
                               ag2\<lparr>calls := calls ag2 @
                                 [TrackData ''Exploration / Exploration noise (max)''
                                    (tensor_max (concat noises')),
                                  TrackData ''Exploration / Exploration noise (min)''
                                    (tensor_min (concat noises')),
                                  TrackData ''Exploration / Exploration noise (mean)''
                                    (tensor_mean (concat noises'))]\<rparr>)))
               else Inr (actions,
                      ag2\<lparr>calls := calls ag2 @
                        [TrackData ''Exploration / Exploration noise (max)'' 0,
                         TrackData ''Exploration / Exploration noise (min)'' 0,
                         TrackData ''Exploration / Exploration noise (mean)'' 0]\<rparr>))
         else Inr (actions, ag1)))"

text \<open>
  \<^verbatim>\<open>sampled_rewards + self._discount_factor * sampled_dones.logical_not() * target_q_values\<close>,
  row by row.
\<close>

definition ddpg_target_values :: "real \<Rightarrow> real list \<Rightarrow> bool list \<Rightarrow> real list \<Rightarrow> real list" where
  "ddpg_target_values gamma rewards dones target_q =
     map (\<lambda>(r, d, q). r + gamma * logical_not d * q) (zip rewards (zip dones target_q))"

definition mse_loss :: "real list \<Rightarrow> real list \<Rightarrow> real" where
  "mse_loss xs ys = tensor_mean (map (\<lambda>(x, y). (x - y)\<^sup>2) (zip xs ys))"

text \<open>
  What the collaborators return during one call of \<^verbatim>\<open>_update\<close>: the sampled rewards and dones,
  and for each gradient step the values of the target critic at the next states, of the critic
  at the sampled actions, of the critic at the actions of the policy, and the last learning
  rates of the two schedulers.
\<close>

record update_inputs =
  sampled_rewards :: "real list"
  sampled_dones :: "bool list"
  target_q_values :: "nat \<Rightarrow> real list"
  critic_values :: "nat \<Rightarrow> real list"
  policy_critic_values :: "nat \<Rightarrow> real list"
  last_lr :: "nat \<Rightarrow> real \<times> real"

text \<open>
  One pass of the loop over \<^verbatim>\<open>range(self._gradient_steps)\<close>: the calls it makes, in order.
  The statistics of an empty batch raise.
\<close>

definition gradient_step :: "update_inputs \<Rightarrow> ddpg \<Rightarrow> nat \<Rightarrow> error + call list" where
  "gradient_step inp ag k =
     (let target_values = ddpg_target_values (discount_factor ag) (sampled_rewards inp)
                            (sampled_dones inp) (target_q_values inp k);
          critic_loss = mse_loss (critic_values inp k) target_values;
          policy_loss = - tensor_mean (policy_critic_values inp k)
      in if policy_critic_values inp k = [] \<or> target_values = [] then Inl RuntimeError
         else Inr
           ([StatePreprocessor (k = 0), StatePreprocessor False,
             OptimizerStep ''critic'', OptimizerStep ''policy'',
             UpdateParameters ''target_policy'' ''policy'' (polyak ag),
             UpdateParameters ''target_critic'' ''critic'' (polyak ag)]
            @ (if learning_rate_scheduler ag
               then [SchedulerStep ''policy'', SchedulerStep ''critic''] else [])
            @ [TrackData ''Loss / Policy loss'' policy_loss,
               TrackData ''Loss / Critic loss'' critic_loss,
               TrackData ''Q-network / Q1 (max)'' (tensor_max (policy_critic_values inp k)),
               TrackData ''Q-network / Q1 (min)'' (tensor_min (policy_critic_values inp k)),
               TrackData ''Q-network / Q1 (mean)'' (tensor_mean (policy_critic_values inp k)),
               TrackData ''Target / Target (max)'' (tensor_max target_values),
               TrackData ''Target / Target (min)'' (tensor_min target_values),
               TrackData ''Target / Target (mean)'' (tensor_mean target_values)]
            @ (if learning_rate_scheduler ag
               then [TrackData ''Learning / Policy learning rate'' (fst (last_lr inp k)),
                     TrackData ''Learning / Critic learning rate'' (snd (last_lr inp k))]
               else [])))"

fun gradient_steps_from :: "update_inputs \<Rightarrow> ddpg \<Rightarrow> nat list \<Rightarrow> error + call list" where
  "gradient_steps_from inp ag [] = Inr []"
| "gradient_steps_from inp ag (k # ks) =
     (case gradient_step inp ag k of
        Inl e \<Rightarrow> Inl e
      | Inr cs \<Rightarrow>
          (case gradient_steps_from inp ag ks of
             Inl e \<Rightarrow> Inl e
           | Inr cs' \<Rightarrow> Inr (cs @ cs')))"

text \<open>\<^verbatim>\<open>DDPG._update\<close>; without a memory \<^verbatim>\<open>self.memory.sample\<close> is an \<^verbatim>\<open>AttributeError\<close>.\<close>

definition ddpg_update :: "update_inputs \<Rightarrow> int \<Rightarrow> int \<Rightarrow> ddpg \<Rightarrow> error + ddpg" where
  "ddpg_update inp timestep timesteps' ag =
     (if \<not> memory ag then Inl AttributeError
      else
        (case gradient_steps_from inp ag [0..<nat (gradient_steps ag)] of
           Inl e \<Rightarrow> Inl e
         | Inr cs \<Rightarrow>
             Inr (ag\<lparr>calls := calls ag
                    @ MemorySample [''states'', ''actions'', ''rewards'', ''next_states'', ''dones'']
                        (batch_size ag)
                    # cs\<rparr>)))"

text \<open>
  \<^verbatim>\<open>DDPG.post_interaction\<close>: the update behind the test on \<^verbatim>\<open>learning_starts\<close>, then the
  method of the base class, which writes the tracked data and the checkpoints.
\<close>

definition ddpg_post_interaction :: "update_inputs \<Rightarrow> int \<Rightarrow> int \<Rightarrow> ddpg \<Rightarrow> error + ddpg" where
  "ddpg_post_interaction inp timestep timesteps' ag =
     (case (if timestep \<ge> learning_starts ag then ddpg_update inp timestep timesteps' ag
            else Inr ag) of
        Inl e \<Rightarrow> Inl e
      | Inr ag' \<Rightarrow> Inr (ag'\<lparr>calls := calls ag' @ [SuperPostInteraction timestep timesteps']\<rparr>))"

text \<open>Kinds of recorded calls.\<close>

definition is_soft_update :: "call \<Rightarrow> bool" where
  "is_soft_update c = (case c of UpdateParameters _ _ _ \<Rightarrow> True | _ \<Rightarrow> False)"

definition is_optimizer_step :: "call \<Rightarrow> bool" where
  "is_optimizer_step c = (case c of OptimizerStep _ \<Rightarrow> True | _ \<Rightarrow> False)"

definition is_memory_sample :: "call \<Rightarrow> bool" where
  "is_memory_sample c = (case c of MemorySample _ _ \<Rightarrow> True | _ \<Rightarrow> False)"

text \<open>A DDPG agent and the values its collaborators return in one update.\<close>

definition ddpg_example :: ddpg where
  "ddpg_example =
     \<lparr>memory = True, secondary_memories = 0, rewards_shaper = None, discount_factor = 1 / 2,
      random_timesteps = 2, learning_starts = 5, calls = [],
      gradient_steps = 1, batch_size = 2, polyak = 1 / 200, learning_rate_scheduler = False,
      exploration_noise = True, exploration_initial_scale = 1, exploration_final_scale = 1 / 10,
      exploration_timesteps = None, clip_actions_min = [-1], clip_actions_max = [1],
      backward_compatibility = False\<rparr>"

definition update_inputs_example :: update_inputs where
  "update_inputs_example =
     \<lparr>sampled_rewards = [1, 2], sampled_dones = [False, True],
      target_q_values = (\<lambda>k. [4, 6]), critic_values = (\<lambda>k. [3, 2]),
      policy_critic_values = (\<lambda>k. [1, 3]), last_lr = (\<lambda>k. (0, 0))\<rparr>"

text \<open>What the collaborators return in one call of \<^verbatim>\<open>act\<close> on one environment.\<close>

definition act_inputs_example :: act_inputs where
  "act_inputs_example =
     \<lparr>random_actions = [[0]], policy_actions = [[1 / 2]], noise_sample = [[2]]\<rparr>"

section \<open>Trainer: the loops for a single agent (skrl/trainers/torch/base.py)\<close>



record ('w, 'obs, 'act, 'info) agent_methods =
  pre_interaction :: "int \<Rightarrow> int \<Rightarrow> 'w \<Rightarrow> error + 'w"
  act :: "'obs \<Rightarrow> int \<Rightarrow> int \<Rightarrow> 'w \<Rightarrow> error + ('act \<times> 'w)"
  record_transition ::
    "'obs \<Rightarrow> 'act \<Rightarrow> real list \<Rightarrow> 'obs \<Rightarrow> bool list \<Rightarrow> 'info \<Rightarrow> int \<Rightarrow> int \<Rightarrow> 'w \<Rightarrow> error + 'w"
  post_interaction :: "int \<Rightarrow> int \<Rightarrow> 'w \<Rightarrow> error + 'w"
  super_record_transition ::
    "'obs \<Rightarrow> 'act \<Rightarrow> real list \<Rightarrow> 'obs \<Rightarrow> bool list \<Rightarrow> 'info \<Rightarrow> int \<Rightarrow> int \<Rightarrow> 'w \<Rightarrow> error + 'w"
  super_post_interaction :: "int \<Rightarrow> int \<Rightarrow> 'w \<Rightarrow> error + 'w"







definition logging_agent :: "(string list, unit, unit, unit) agent_methods" where
  "logging_agent =
     \<lparr>pre_interaction = (\<lambda>t n w. Inr w),
      act = (\<lambda>s t n w. Inr ((), w @ [''act''])),
      record_transition = (\<lambda>s a r s' d i t n w. Inr (w @ [''record_transition''])),
      post_interaction = (\<lambda>t n w. Inr (w @ [''post_interaction''])),
      super_record_transition = (\<lambda>s a r s' d i t n w. Inr (w @ [''Agent.record_transition''])),
      super_post_interaction = (\<lambda>t n w. Inr (w @ [''Agent.post_interaction'']))\<rparr>"

definition logging_trainer :: "(string list, unit, unit, unit) agent_methods trainer" where
  "logging_trainer =
     \<lparr>cfg = \<lparr>cfg_timesteps = Some 1, cfg_headless = None\<rparr>, env_num_envs = 1,
      agents = Agent logging_agent, agents_scope = Sizes [1], timesteps = 1, headless = False,
      initial_timestep = 0, num_agents = 1\<rparr>"

section \<open>The multivariate Gaussian mixin (skrl/models/torch/multivariate_gaussian.py)\<close>

text \<open>
  A \<^verbatim>\<open>MultivariateNormal\<close> is kept as its two arguments, the mean and the lower-triangular
  factor. A returned tensor is a scalar, a vector or a matrix.
\<close>

datatype distribution = MultivariateNormal "real list list" "real list list"


text \<open>
  The seven dictionaries keyed by role; a value \<^verbatim>\<open>None\<close> is \<open>Some None\<close>, a missing key is
  \<open>None\<close>. An object on which \<^verbatim>\<open>__init__\<close> has not run has no dictionaries, which the empty
  maps stand for (\<^verbatim>\<open>__init__\<close> creates them empty). The clipping bounds and the flag for torch
  before 1.9 are attributes only after an \<^verbatim>\<open>__init__\<close> that clips actions.
\<close>

record gaussian_mixin =
  action_space_is_gym :: bool
  action_space_low :: "real list"
  action_space_high :: "real list"
  torch_before_1_9 :: bool
  mg_clip_actions :: "string \<rightharpoonup> bool"
  mg_clip_actions_min :: "real list option"
  mg_clip_actions_max :: "real list option"
  mg_backward_compatibility :: "bool option"
  mg_clip_log_std :: "string \<rightharpoonup> bool"
  mg_log_std_min :: "string \<rightharpoonup> real"
  mg_log_std_max :: "string \<rightharpoonup> real"
  mg_log_std :: "string \<rightharpoonup> real list option"
  mg_num_samples :: "string \<rightharpoonup> nat option"
  mg_distribution :: "string \<rightharpoonup> distribution option"



text \<open>\<^verbatim>\<open>d[role] if role in d else d[""]\<close>; the second subscript raises when \<^verbatim>\<open>""\<close> is no key.\<close>

definition role_lookup :: "(string \<rightharpoonup> 'v) \<Rightarrow> string \<Rightarrow> error + 'v" where
  "role_lookup d role =
     (case d role of
        Some v \<Rightarrow> Inr v
      | None \<Rightarrow> (case d '''' of Some v \<Rightarrow> Inr v | None \<Rightarrow> Inl (KeyError '''')))"





definition distribution :: "string \<Rightarrow> gaussian_mixin \<Rightarrow> error + distribution option" where
  "distribution role m = role_lookup (mg_distribution m) role"





section \<open>Properties of the scopes\<close>

lemma int_truediv_nonneg: "0 \<le> a \<Longrightarrow> 0 < b \<Longrightarrow> int_truediv a b = Inr (a div b)"
  by (cases "a = 0") (simp_all add: int_truediv_def)

lemma sum_list_replicate_int: "sum_list (replicate k (q::int)) = int k * q"
  by (induction k) (simp_all add: algebra_simps)

lemma add_to_last_replicate:
  "add_to_last (replicate (Suc n) q) d = Inr (replicate n q @ [q + d])"
proof -
  have "replicate (Suc n) q = replicate n q @ [q]"
    by (simp add: replicate_append_same)
  then have "(replicate (Suc n) q)[n := replicate (Suc n) q ! n + d] = replicate n q @ [q + d]"
    by (simp add: nth_append list_update_append del: replicate_Suc)
  then show ?thesis by (simp add: add_to_last_def del: replicate_Suc)
qed

lemma equal_scopes:
  assumes "0 < m" and "int m \<le> n"
  shows "(case int_truediv n (int m) of
            Inl e \<Rightarrow> Inl e
          | Inr q \<Rightarrow>
             (let scope = replicate m q in
              if sum_list scope \<noteq> 0
              then add_to_last scope (n - sum_list scope)
              else Inl (ValueError (AgentsGreaterThanEnvs (int m) n))))
         = Inr (replicate (m - 1) (n div int m) @ [n div int m + n mod int m])"
proof -
  obtain k where k: "m = Suc k" using assms(1) by (cases m) simp_all
  have q: "1 \<le> n div int m"
  proof -
    have "int m div int m \<le> n div int m"
      using assms by (intro zdiv_mono1) simp_all
    then show ?thesis using assms(1) by simp
  qed
  have pos: "int m * (n div int m) \<noteq> 0" using q assms(1) by simp
  have rem: "n - int m * (n div int m) = n mod int m"
    by (simp add: minus_mult_div_eq_mod)
  have td: "int_truediv n (int m) = Inr (n div int m)"
    using assms by (simp add: int_truediv_nonneg)
  show ?thesis
    unfolding td using pos rem
    by (simp add: Let_def sum_list_replicate_int k add_to_last_replicate del: replicate_Suc)
qed

lemma no_scopes:
  assumes "0 \<le> n" and "n < int m"
  shows "(case int_truediv n (int m) of
            Inl e \<Rightarrow> Inl e
          | Inr q \<Rightarrow>
             (let scope = replicate m q in
              if sum_list scope \<noteq> 0
              then add_to_last scope (n - sum_list scope)
              else Inl (ValueError (AgentsGreaterThanEnvs (int m) n))))
         = Inl (ValueError (AgentsGreaterThanEnvs (int m) n))"
proof -
  have td: "int_truediv n (int m) = Inr 0"
    using assms by (simp add: int_truediv_nonneg)
  show ?thesis unfolding td by (simp add: Let_def sum_list_replicate_int)
qed

lemma generate_ranges_length: "length (generate_ranges index scope) = length scope"
  by (induction scope arbitrary: index) (simp_all add: Let_def)

lemma generate_ranges_nth:
  "i < length scope \<Longrightarrow>
   generate_ranges index scope ! i =
     (index + sum_list (take i scope), index + sum_list (take (Suc i) scope))"
proof (induction scope arbitrary: index i)
  case Nil
  then show ?case by simp
next
  case (Cons s scope)
  show ?case
  proof (cases i)
    case 0
    then show ?thesis by (simp add: Let_def)
  next
    case (Suc j)
    with Cons.prems have "j < length scope" by simp
    from Cons.IH [OF this, of "index + s"] Suc show ?thesis
      by (simp add: Let_def algebra_simps)
  qed
qed

lemma covering_generate_ranges:
  "\<forall>s \<in> set scope. 0 \<le> s \<Longrightarrow>
   length (covering (generate_ranges index scope) e) =
     (if index \<le> e \<and> e < index + sum_list scope then 1 else 0)"
proof (induction scope arbitrary: index)
  case Nil
  then show ?case by (simp add: covering_def)
next
  case (Cons s scope)
  then have nonneg: "\<forall>x \<in> set scope. 0 \<le> x" and s0: "0 \<le> s" by simp_all
  have rest: "0 \<le> sum_list scope" using nonneg by (simp add: sum_list_nonneg)
  have IH: "length (covering (generate_ranges (index + s) scope) e) =
     (if index + s \<le> e \<and> e < index + s + sum_list scope then 1 else 0)"
    using Cons.IH [OF nonneg] .
  have "covering (generate_ranges index (s # scope)) e =
      (if index \<le> e \<and> e < index + s then [(index, index + s)] else [])
      @ covering (generate_ranges (index + s) scope) e"
    by (simp add: covering_def Let_def)
  then show ?case using IH s0 rest by (auto simp: algebra_simps)
qed


lemma Trainer_empty_scope:
  "1 < length ags \<Longrightarrow>
   Trainer n (Agents ags) [] c =
     (case check_scopes n (length ags) (Sizes []) of
        Inl e \<Rightarrow> Inl e
      | Inr scope \<Rightarrow>
          Inr \<lparr>cfg = c, env_num_envs = n, agents = Agents ags,
               agents_scope = Ranges (generate_ranges 0 scope),
               timesteps = (case cfg_timesteps c of None \<Rightarrow> 0 | Some t \<Rightarrow> t),
               headless = (case cfg_headless c of None \<Rightarrow> False | Some h \<Rightarrow> h),
               initial_timestep = 0, num_agents = int (length ags)\<rparr>)"
  by (simp add: Trainer_def setup_agents_def Let_def split: sum.splits)

lemma Trainer_given_scope:
  "1 < length ags \<Longrightarrow>
   Trainer n (Agents ags) scope c =
     (case check_scopes n (length ags) (Sizes scope) of
        Inl e \<Rightarrow> Inl e
      | Inr scope' \<Rightarrow>
          Inr \<lparr>cfg = c, env_num_envs = n, agents = Agents ags,
               agents_scope = Ranges (generate_ranges 0 scope'),
               timesteps = (case cfg_timesteps c of None \<Rightarrow> 0 | Some t \<Rightarrow> t),
               headless = (case cfg_headless c of None \<Rightarrow> False | Some h \<Rightarrow> h),
               initial_timestep = 0, num_agents = int (length ags)\<rparr>)"
  by (simp add: Trainer_def setup_agents_def Let_def split: sum.splits)

lemma check_scopes_empty_ok:
  "0 < m \<Longrightarrow> int m \<le> n \<Longrightarrow>
   check_scopes n m (Sizes []) = Inr (replicate (m - 1) (n div int m) @ [n div int m + n mod int m])"
  using equal_scopes [of m n] by (simp add: check_scopes_def)

lemma check_scopes_empty_fail:
  "0 \<le> n \<Longrightarrow> n < int m \<Longrightarrow>
   check_scopes n m (Sizes []) = Inl (ValueError (AgentsGreaterThanEnvs (int m) n))"
  using no_scopes [of n m] by (simp add: check_scopes_def)

lemma generate_equally_spaced_scopes_ok:
  "0 < m \<Longrightarrow> int m \<le> n \<Longrightarrow>
   generate_equally_spaced_scopes n (int m) =
     Inr (replicate (m - 1) (n div int m) @ [n div int m + n mod int m])"
  unfolding generate_equally_spaced_scopes_def nat_int using equal_scopes [of m n] by simp

lemma generate_equally_spaced_scopes_fail:
  "0 \<le> n \<Longrightarrow> n < int m \<Longrightarrow>
   generate_equally_spaced_scopes n (int m) = Inl (ValueError (AgentsGreaterThanEnvs (int m) n))"
  unfolding generate_equally_spaced_scopes_def nat_int using no_scopes [of n m] by simp

lemma equal_sizes_sum:
  "0 < m \<Longrightarrow> sum_list (replicate (m - 1) (n div int m) @ [n div int m + n mod int m]) = n"
proof -
  assume "0 < m"
  then have "int (m - 1) = int m - 1" by simp
  then show ?thesis
    by (simp add: sum_list_replicate_int algebra_simps)
qed

lemma equal_sizes_nonneg:
  "0 < m \<Longrightarrow> 0 \<le> n \<Longrightarrow>
   \<forall>s \<in> set (replicate (m - 1) (n div int m) @ [n div int m + n mod int m]). 0 \<le> s"
  by (auto simp: pos_imp_zdiv_nonneg_iff)

text \<open>
  Claim C1. With more than one agent, an empty scope list and at least as many environments
  as agents, the generated sizes give every agent \<open>num_envs div num_agents\<close> environments
  and the last one the remainder \<open>num_envs mod num_agents\<close> on top; the function
  \<^verbatim>\<open>generate_equally_spaced_scopes\<close> and the copy of it inside \<^verbatim>\<open>_setup_agents\<close> agree. There
  are as many sizes as agents, they sum to \<open>num_envs\<close>, and after the conversion every
  environment of \<open>[0, num_envs)\<close> lies in exactly one range and no other integer in any.
\<close>

theorem auto_scopes_partition:
  assumes "1 < length ags" and "int (length ags) \<le> num_envs"
  shows "let m = int (length ags);
             sizes = replicate (length ags - 1) (num_envs div m) @ [num_envs div m + num_envs mod m]
         in generate_equally_spaced_scopes num_envs m = Inr sizes
          \<and> map_sum id agents_scope (Trainer num_envs (Agents ags) [] c)
              = Inr (Ranges (generate_ranges 0 sizes))
          \<and> length sizes = length ags
          \<and> sum_list sizes = num_envs
          \<and> (\<forall>e. length (covering (generate_ranges 0 sizes) e)
                  = (if 0 \<le> e \<and> e < num_envs then 1 else 0))"
proof -
  let ?m = "int (length ags)"
  let ?sizes = "replicate (length ags - 1) (num_envs div ?m) @ [num_envs div ?m + num_envs mod ?m]"
  have m: "0 < length ags" using assms(1) by linarith
  have n: "0 \<le> num_envs" using assms(2) by linarith
  have g: "generate_equally_spaced_scopes num_envs ?m = Inr ?sizes"
    using generate_equally_spaced_scopes_ok [OF m assms(2)] .
  have t: "map_sum id agents_scope (Trainer num_envs (Agents ags) [] c)
             = Inr (Ranges (generate_ranges 0 ?sizes))"
    by (simp add: Trainer_empty_scope [OF assms(1)] check_scopes_empty_ok [OF m assms(2)])
  have l: "length ?sizes = length ags" using m by simp
  have s: "sum_list ?sizes = num_envs" using equal_sizes_sum [OF m] .
  have p: "\<forall>e. length (covering (generate_ranges 0 ?sizes) e)
                  = (if 0 \<le> e \<and> e < num_envs then 1 else 0)"
    using covering_generate_ranges [OF equal_sizes_nonneg [OF m n], of 0] s by simp
  show ?thesis unfolding Let_def using g t l s p by blast
qed

theorem auto_scopes_partition_witness:
  "generate_equally_spaced_scopes 10 3 = Inr [3, 3, 4]
   \<and> map_sum id agents_scope (Trainer 10 (Agents [1, 2, 3 :: nat]) [] \<lparr>cfg_timesteps = None, cfg_headless = None\<rparr>)
       = Inr (Ranges [(0, 3), (3, 6), (6, 10)])
   \<and> sum_list [3, 3, 4 :: int] = 10
   \<and> covering (generate_ranges 0 [3, 3, 4]) 5 = [(3, 6)]"
  using auto_scopes_partition [of "[1, 2, 3 :: nat]" 10 "\<lparr>cfg_timesteps = None, cfg_headless = None\<rparr>"]
  by (simp add: Let_def covering_def numeral_3_eq_3)

text \<open>
  Claim C4. With more than one agent and a given, non-empty scope list, the construction
  raises if and only if the number of scopes differs from the number of agents or the sizes
  do not sum to \<open>num_envs\<close> (the count is checked first). Otherwise the sizes become ranges by
  cumulative sum: the \<open>i\<close>-th range goes from the sum of the first \<open>i\<close> sizes to the sum of
  the first \<open>i + 1\<close> sizes.
\<close>

theorem explicit_scopes_checked:
  assumes "1 < length ags" and "scope \<noteq> []"
  shows "(isl (Trainer num_envs (Agents ags) scope c)
            \<longleftrightarrow> length scope \<noteq> length ags \<or> sum_list scope \<noteq> num_envs)
       \<and> (length scope \<noteq> length ags \<longrightarrow>
            Trainer num_envs (Agents ags) scope c
              = Inl (ValueError (AgentsDontMatchScopes (int (length ags)) (int (length scope)))))
       \<and> (length scope = length ags \<and> sum_list scope \<noteq> num_envs \<longrightarrow>
            Trainer num_envs (Agents ags) scope c
              = Inl (ValueError (ScopesDontCover (sum_list scope) num_envs)))
       \<and> (length scope = length ags \<and> sum_list scope = num_envs \<longrightarrow>
            map_sum id agents_scope (Trainer num_envs (Agents ags) scope c)
              = Inr (Ranges (generate_ranges 0 scope))
            \<and> length (generate_ranges 0 scope) = length ags
            \<and> (\<forall>i < length scope.
                  generate_ranges 0 scope ! i
                    = (sum_list (take i scope), sum_list (take (Suc i) scope))))"
proof -
  have ne: "length scope \<noteq> 0" using assms(2) by simp
  have c: "check_scopes num_envs (length ags) (Sizes scope) =
      (if length scope \<noteq> length ags
       then Inl (ValueError (AgentsDontMatchScopes (int (length ags)) (int (length scope))))
       else if sum_list scope \<noteq> num_envs
       then Inl (ValueError (ScopesDontCover (sum_list scope) num_envs))
       else Inr scope)"
    using ne by (simp add: check_scopes_def)
  have r: "\<forall>i < length scope.
      generate_ranges 0 scope ! i = (sum_list (take i scope), sum_list (take (Suc i) scope))"
    using generate_ranges_nth [of _ scope 0] by simp
  show ?thesis
    using r by (simp add: Trainer_given_scope [OF assms(1)] c generate_ranges_length)
qed

theorem explicit_scopes_checked_witness:
  "isl (Trainer 4 (Agents [1, 2 :: nat]) [1, 2, 1] \<lparr>cfg_timesteps = None, cfg_headless = None\<rparr>)
   \<and> Trainer 4 (Agents [1, 2 :: nat]) [1, 2] \<lparr>cfg_timesteps = None, cfg_headless = None\<rparr> = Inl (ValueError (ScopesDontCover 3 4))
   \<and> map_sum id agents_scope (Trainer 4 (Agents [1, 2 :: nat]) [1, 3] \<lparr>cfg_timesteps = None, cfg_headless = None\<rparr>) = Inr (Ranges [(0, 1), (1, 4)])"
  using explicit_scopes_checked [of "[1, 2 :: nat]" "[1, 2, 1]" 4 "\<lparr>cfg_timesteps = None, cfg_headless = None\<rparr>"]
    explicit_scopes_checked [of "[1, 2 :: nat]" "[1, 2]" 4 "\<lparr>cfg_timesteps = None, cfg_headless = None\<rparr>"]
    explicit_scopes_checked [of "[1, 2 :: nat]" "[1, 3]" 4 "\<lparr>cfg_timesteps = None, cfg_headless = None\<rparr>"]
  by (simp add: Let_def)

text \<open>
  Claim C5. With more than one agent and an empty scope list, more agents than environments
  (\<open>num_envs\<close> is a count, so it is not negative) make the construction of the trainer, and
  \<^verbatim>\<open>generate_equally_spaced_scopes\<close>, raise the \<^verbatim>\<open>ValueError\<close> that names both numbers; the
  error is the result of the constructor, so no loop runs. With at most as many agents as
  environments nothing is raised.
\<close>

theorem insufficient_environments:
  assumes "1 < length ags" and "0 \<le> num_envs"
  shows "(num_envs < int (length ags) \<longrightarrow>
            Trainer num_envs (Agents ags) [] c
              = Inl (ValueError (AgentsGreaterThanEnvs (int (length ags)) num_envs))
            \<and> generate_equally_spaced_scopes num_envs (int (length ags))
              = Inl (ValueError (AgentsGreaterThanEnvs (int (length ags)) num_envs)))
       \<and> (int (length ags) \<le> num_envs \<longrightarrow>
            \<not> isl (Trainer num_envs (Agents ags) [] c)
            \<and> \<not> isl (generate_equally_spaced_scopes num_envs (int (length ags))))"
proof -
  have m: "0 < length ags" using assms(1) by linarith
  show ?thesis
    using m assms(2)
    by (simp add: Trainer_empty_scope [OF assms(1)] check_scopes_empty_ok check_scopes_empty_fail
        generate_equally_spaced_scopes_ok generate_equally_spaced_scopes_fail)
qed

theorem insufficient_environments_witness:
  "generate_equally_spaced_scopes 3 5 = Inl (ValueError (AgentsGreaterThanEnvs 5 3))
   \<and> Trainer 3 (Agents [1, 2, 3, 4, 5 :: nat]) [] \<lparr>cfg_timesteps = None, cfg_headless = None\<rparr> = Inl (ValueError (AgentsGreaterThanEnvs 5 3))
   \<and> \<not> isl (Trainer 5 (Agents [1, 2, 3, 4, 5 :: nat]) [] \<lparr>cfg_timesteps = None, cfg_headless = None\<rparr>)"
  using insufficient_environments [of "[1, 2, 3, 4, 5 :: nat]" 3 "\<lparr>cfg_timesteps = None, cfg_headless = None\<rparr>"]
    insufficient_environments [of "[1, 2, 3, 4, 5 :: nat]" 5 "\<lparr>cfg_timesteps = None, cfg_headless = None\<rparr>"]
  by simp

section \<open>Properties of the SARSA update\<close>

lemma in_table_put [simp]: "in_table (table_put q e s a v) e' s' a' = in_table q e' s' a'"
  by (cases "e < length q"; cases "e' = e"; cases "s < length (q ! e)"; cases "s' = s")
     (auto simp: in_table_def table_put_def)

lemma table_get_put:
  "in_table q e s a \<Longrightarrow>
   table_get (table_put q e s a v) e' s' a' =
     (if e' = e \<and> s' = s \<and> a' = a then v else table_get q e' s' a')"
  by (cases "e' = e"; cases "s' = s"; cases "a' = a")
     (auto simp: in_table_def table_put_def table_get_def)

lemma table_get_fold_put:
  assumes "distinct es"
    and "\<forall>e \<in> set es. in_table q0 e (st e) (ac e)"
  shows "table_get (fold (\<lambda>e q'. table_put q' e (st e) (ac e) (v e)) es q0) e s a =
           (if e \<in> set es \<and> s = st e \<and> a = ac e then v e else table_get q0 e s a)"
  using assms
proof (induction es arbitrary: q0)
  case Nil
  then show ?case by simp
next
  case (Cons x es)
  let ?q1 = "table_put q0 x (st x) (ac x) (v x)"
  have d: "distinct es" and x: "x \<notin> set es" using Cons.prems(1) by simp_all
  have r: "\<forall>e \<in> set es. in_table ?q1 e (st e) (ac e)" using Cons.prems(2) by simp
  have x0: "in_table q0 x (st x) (ac x)" using Cons.prems(2) by simp
  show ?case
    using Cons.IH [OF d r] x by (auto simp: table_get_put [OF x0])
qed

lemma in_table_fold_put [simp]:
  "in_table (fold (\<lambda>e q'. table_put q' e (st e) (ac e) (v e)) es q0) e s a = in_table q0 e s a"
  by (induction es arbitrary: q0) simp_all


lemma sarsa_record_transition_fields:
  "q_table (sarsa_record_transition states actions rewards next_states dones t n ag) = q_table ag"
  "learning_rate (sarsa_record_transition states actions rewards next_states dones t n ag)
     = learning_rate ag"
  "discount_factor (sarsa_record_transition states actions rewards next_states dones t n ag)
     = discount_factor ag"
  "current_states (sarsa_record_transition states actions rewards next_states dones t n ag)
     = Some states"
  "current_actions (sarsa_record_transition states actions rewards next_states dones t n ag)
     = Some actions"
  "current_next_states (sarsa_record_transition states actions rewards next_states dones t n ag)
     = Some next_states"
  "current_dones (sarsa_record_transition states actions rewards next_states dones t n ag)
     = Some dones"
  "current_rewards (sarsa_record_transition states actions rewards next_states dones t n ag)
     = Some (case rewards_shaper ag of None \<Rightarrow> rewards | Some shaper \<Rightarrow> shaper rewards t n)"
  by (simp_all add: sarsa_record_transition_def add_samples_def Let_def)

text \<open>
  Claim C7. After \<^verbatim>\<open>record_transition\<close> has stored a transition (the rewards after the optional
  shaping), with one row per environment and all indices inside the table, the update succeeds,
  leaves the shape of the table and every other attribute as they are, and the new table holds
  at \<open>(e, states[e], actions[e])\<close> the old entry plus
  \<open>learning_rate * (r[e] + discount_factor * (1 - done[e]) * Q[e, s'[e], a'[e]] - Q[e, s[e], a[e]])\<close>
  with the old table on the right and \<open>a'\<close> the actions of the policy for the next states;
  every other entry is unchanged.
\<close>

theorem sarsa_update_rule:
  assumes rec: "ag = sarsa_record_transition states actions rewards0 next_states dones t n ag0"
    and r: "rewards = (case rewards_shaper ag0 of None \<Rightarrow> rewards0
                        | Some shaper \<Rightarrow> shaper rewards0 t n)"
    and a': "next_actions = policy_act (q_table ag) next_states"
    and len: "length states = length rewards" "length actions = length rewards"
      "length next_states = length rewards" "length dones = length rewards"
      "length next_actions = length rewards"
    and rng: "\<forall>e < length rewards.
                in_table (q_table ag) e (states ! e) (actions ! e)
              \<and> in_table (q_table ag) e (next_states ! e) (next_actions ! e)"
  shows "\<exists>q'. sarsa_update policy_act t n ag = Inr (ag\<lparr>q_table := q'\<rparr>)
           \<and> (\<forall>e s a. in_table q' e s a = in_table (q_table ag) e s a)
           \<and> (\<forall>e s a. in_table (q_table ag) e s a \<longrightarrow>
                 table_get q' e s a =
                   (if e < length rewards \<and> s = states ! e \<and> a = actions ! e
                    then table_get (q_table ag) e s a
                         + learning_rate ag
                           * (rewards ! e
                              + discount_factor ag * (if dones ! e then 0 else 1)
                                * table_get (q_table ag) e (next_states ! e) (next_actions ! e)
                              - table_get (q_table ag) e s a)
                    else table_get (q_table ag) e s a))"
proof -
  let ?q = "q_table ag"
  let ?v = "\<lambda>e. table_get ?q e (states ! e) (actions ! e)
              + learning_rate ag
                * (rewards ! e
                   + discount_factor ag * (if dones ! e then 0 else 1)
                     * table_get ?q e (next_states ! e) (next_actions ! e)
                   - table_get ?q e (states ! e) (actions ! e))"
  let ?q' = "fold (\<lambda>e q'. table_put q' e (states ! e) (actions ! e) (?v e)) [0..<length rewards] ?q"
  have cur: "current_rewards ag = Some rewards" "current_states ag = Some states"
    "current_actions ag = Some actions" "current_next_states ag = Some next_states"
    "current_dones ag = Some dones"
    unfolding rec r by (simp_all add: sarsa_record_transition_fields)
  have ok: "\<forall>e \<in> set [0..<length rewards].
              in_table ?q e (states ! e) (actions ! e)
            \<and> in_table ?q e (next_states ! e) (next_actions ! e)"
    using rng by simp
  have run: "sarsa_update policy_act t n ag = Inr (ag\<lparr>q_table := ?q'\<rparr>)"
    unfolding sarsa_update_def cur using len ok a' by (simp add: Let_def logical_not_def)
  have shape: "\<forall>e s a. in_table ?q' e s a = in_table ?q e s a"
    by simp
  have inr: "\<forall>e \<in> set [0..<length rewards]. in_table ?q e (states ! e) (actions ! e)"
    using rng by simp
  have vals: "table_get ?q' e s a =
      (if e < length rewards \<and> s = states ! e \<and> a = actions ! e then ?v e
       else table_get ?q e s a)" for e s a
    using table_get_fold_put [of "[0..<length rewards]" ?q "\<lambda>e. states ! e" "\<lambda>e. actions ! e" ?v e s a]
      inr by simp
  have "\<forall>e s a. in_table ?q e s a \<longrightarrow>
          table_get ?q' e s a =
            (if e < length rewards \<and> s = states ! e \<and> a = actions ! e
             then table_get ?q e s a
                  + learning_rate ag
                    * (rewards ! e
                       + discount_factor ag * (if dones ! e then 0 else 1)
                         * table_get ?q e (next_states ! e) (next_actions ! e)
                       - table_get ?q e s a)
             else table_get ?q e s a)"
    by (simp add: vals)
  with run shape show ?thesis by blast
qed

theorem sarsa_update_rule_witness:
  "\<exists>q'. sarsa_update (\<lambda>q s. map (\<lambda>_. 1) s) 0 10
           (sarsa_record_transition [0] [1] [1] [1] [False] 0 10 sarsa_example)
         = Inr ((sarsa_record_transition [0] [1] [1] [1] [False] 0 10 sarsa_example)
                  \<lparr>q_table := q'\<rparr>)
       \<and> table_get q' 0 0 1 = 1 \<and> table_get q' 0 1 1 = 2 \<and> table_get q' 0 0 0 = 0"
proof -
  let ?ag = "sarsa_record_transition [0] [1] [1] [1] [False] 0 10 sarsa_example"
  let ?pa = "\<lambda>(q::table) (s::nat list). map (\<lambda>_. 1::nat) s"
  have q: "q_table ?ag = [[[0, 0], [1, 2]]]"
    by (simp add: sarsa_record_transition_fields sarsa_example_def)
  have lr: "learning_rate ?ag = 1 / 2" and df: "discount_factor ?ag = 1 / 2"
    by (simp_all add: sarsa_record_transition_fields sarsa_example_def)
  have rng: "\<forall>e < length [1::real].
      in_table (q_table ?ag) e ([0] ! e) ([1] ! e) \<and> in_table (q_table ?ag) e ([1] ! e) ([1] ! e)"
    unfolding q by (simp add: in_table_def)
  from sarsa_update_rule [where ag = ?ag and states = "[0]" and actions = "[1]"
      and ?rewards0.0 = "[1]" and next_states = "[1]" and dones = "[False]" and t = 0 and n = 10
      and ?ag0.0 = sarsa_example and rewards = "[1]" and next_actions = "[1]" and policy_act = ?pa,
      OF refl _ _ _ _ _ _ _ rng]
  obtain q' where run: "sarsa_update ?pa 0 10 ?ag = Inr (?ag\<lparr>q_table := q'\<rparr>)"
    and vals: "\<forall>e s a. in_table (q_table ?ag) e s a \<longrightarrow>
       table_get q' e s a =
         (if e < length [1::real] \<and> s = [0] ! e \<and> a = [1] ! e
          then table_get (q_table ?ag) e s a
               + learning_rate ?ag
                 * ([1] ! e
                    + discount_factor ?ag * (if [False] ! e then 0 else 1)
                      * table_get (q_table ?ag) e ([1] ! e) ([1] ! e)
                    - table_get (q_table ?ag) e s a)
          else table_get (q_table ?ag) e s a)"
    by (auto simp: sarsa_example_def)
  have "table_get q' 0 0 1 = 1"
    using vals [rule_format, of 0 0 1] unfolding q lr df by (simp add: in_table_def table_get_def)
  moreover have "table_get q' 0 1 1 = 2"
    using vals [rule_format, of 0 1 1] unfolding q lr df by (simp add: in_table_def table_get_def)
  moreover have "table_get q' 0 0 0 = 0"
    using vals [rule_format, of 0 0 0] unfolding q lr df by (simp add: in_table_def table_get_def)
  ultimately show ?thesis using run by blast
qed

section \<open>Properties of DDPG\<close>



lemma gradient_step_counts:
  assumes "gradient_step inp ag k = Inr cs"
  shows "length (filter is_soft_update cs) = 2" and "length (filter is_optimizer_step cs) = 2"
    and "filter is_memory_sample cs = []"
  using assms
  by (auto simp: gradient_step_def Let_def is_soft_update_def is_optimizer_step_def
      is_memory_sample_def split: if_splits)

lemma gradient_steps_from_counts:
  "gradient_steps_from inp ag ks = Inr cs \<Longrightarrow>
   length (filter is_soft_update cs) = 2 * length ks
   \<and> length (filter is_optimizer_step cs) = 2 * length ks
   \<and> filter is_memory_sample cs = []"
proof (induction ks arbitrary: cs)
  case Nil
  then show ?case by simp
next
  case (Cons k ks)
  from Cons.prems obtain c1 c2 where c1: "gradient_step inp ag k = Inr c1"
    and c2: "gradient_steps_from inp ag ks = Inr c2" and cs: "cs = c1 @ c2"
    by (auto split: sum.splits)
  show ?case
    using Cons.IH [OF c2] gradient_step_counts [OF c1] by (simp add: cs)
qed

lemma ddpg_post_interaction_before:
  "timestep < learning_starts ag \<Longrightarrow>
   ddpg_post_interaction inp timestep n ag
     = Inr (ag\<lparr>calls := calls ag @ [SuperPostInteraction timestep n]\<rparr>)"
  by (simp add: ddpg_post_interaction_def)

lemma ddpg_post_interaction_after:
  "learning_starts ag \<le> timestep \<Longrightarrow>
   ddpg_post_interaction inp timestep n ag
     = (case ddpg_update inp timestep n ag of
          Inl e \<Rightarrow> Inl e
        | Inr ag' \<Rightarrow> Inr (ag'\<lparr>calls := calls ag' @ [SuperPostInteraction timestep n]\<rparr>))"
  by (simp add: ddpg_post_interaction_def)

lemma ddpg_update_calls:
  assumes "ddpg_update inp timestep n ag = Inr ag'"
  shows "\<exists>cs. calls ag' = calls ag @ cs
           \<and> length (filter is_memory_sample cs) = 1
           \<and> length (filter is_optimizer_step cs) = 2 * nat (gradient_steps ag)
           \<and> length (filter is_soft_update cs) = 2 * nat (gradient_steps ag)"
proof -
  from assms obtain cs where g: "gradient_steps_from inp ag [0..<nat (gradient_steps ag)] = Inr cs"
    and ag': "ag' = ag\<lparr>calls := calls ag
                @ MemorySample [''states'', ''actions'', ''rewards'', ''next_states'', ''dones'']
                    (batch_size ag) # cs\<rparr>"
    by (auto simp: ddpg_update_def split: if_splits sum.splits)
  let ?cs = "MemorySample [''states'', ''actions'', ''rewards'', ''next_states'', ''dones'']
               (batch_size ag) # cs"
  have "calls ag' = calls ag @ ?cs" by (simp add: ag')
  moreover have "length (filter is_memory_sample ?cs) = 1"
    using gradient_steps_from_counts [OF g] by (simp add: is_memory_sample_def)
  moreover have "length (filter is_optimizer_step ?cs) = 2 * nat (gradient_steps ag)"
    using gradient_steps_from_counts [OF g] by (simp add: is_optimizer_step_def)
  moreover have "length (filter is_soft_update ?cs) = 2 * nat (gradient_steps ag)"
    using gradient_steps_from_counts [OF g] by (simp add: is_soft_update_def)
  ultimately show ?thesis by blast
qed

lemma ddpg_post_interaction_calls:
  assumes "ddpg_post_interaction inp timestep n ag = Inr ag'"
  shows "\<exists>cs. calls ag' = calls ag @ cs @ [SuperPostInteraction timestep n]
           \<and> length (filter is_memory_sample cs)
               = (if learning_starts ag \<le> timestep then 1 else 0)
           \<and> length (filter is_optimizer_step cs)
               = (if learning_starts ag \<le> timestep then 2 * nat (gradient_steps ag) else 0)
           \<and> length (filter is_soft_update cs)
               = (if learning_starts ag \<le> timestep then 2 * nat (gradient_steps ag) else 0)"
proof (cases "learning_starts ag \<le> timestep")
  case True
  with assms obtain ag1 where u: "ddpg_update inp timestep n ag = Inr ag1"
    and ag': "ag' = ag1\<lparr>calls := calls ag1 @ [SuperPostInteraction timestep n]\<rparr>"
    by (auto simp: ddpg_post_interaction_def split: sum.splits)
  from ddpg_update_calls [OF u] obtain cs where "calls ag1 = calls ag @ cs"
    and "length (filter is_memory_sample cs) = 1"
    and "length (filter is_optimizer_step cs) = 2 * nat (gradient_steps ag)"
    and "length (filter is_soft_update cs) = 2 * nat (gradient_steps ag)"
    by blast
  then show ?thesis using True ag' by auto
next
  case False
  with assms have "ag' = ag\<lparr>calls := calls ag @ [SuperPostInteraction timestep n]\<rparr>"
    by (simp add: ddpg_post_interaction_def)
  then have "calls ag' = calls ag @ [] @ [SuperPostInteraction timestep n]" by simp
  then show ?thesis using False by force
qed

text \<open>
  Claim C3. Before \<^verbatim>\<open>learning_starts\<close> the \<^verbatim>\<open>post_interaction\<close> of DDPG and of SARSA does nothing
  but call the method of the base class; from \<^verbatim>\<open>learning_starts\<close> on it runs \<^verbatim>\<open>_update\<close> first
  and, unless that raises, the method of the base class after it. So a call of DDPG that
  returns has sampled the memory once if the timestep has reached \<^verbatim>\<open>learning_starts\<close> and
  never otherwise, has made two optimizer steps and two soft updates of the target networks
  per gradient step in the first case and none in the second, and has ended with the method of
  the base class in both.
\<close>

theorem post_interaction_gating:
  "(timestep < learning_starts ag \<longrightarrow>
      ddpg_post_interaction inp timestep n ag
        = Inr (ag\<lparr>calls := calls ag @ [SuperPostInteraction timestep n]\<rparr>))
   \<and> (learning_starts ag \<le> timestep \<longrightarrow>
      ddpg_post_interaction inp timestep n ag
        = (case ddpg_update inp timestep n ag of
             Inl e \<Rightarrow> Inl e
           | Inr ag' \<Rightarrow> Inr (ag'\<lparr>calls := calls ag' @ [SuperPostInteraction timestep n]\<rparr>)))
   \<and> (\<forall>ag'. ddpg_post_interaction inp timestep n ag = Inr ag' \<longrightarrow>
         (\<exists>cs. calls ag' = calls ag @ cs @ [SuperPostInteraction timestep n]
            \<and> length (filter is_memory_sample cs)
                = (if learning_starts ag \<le> timestep then 1 else 0)
            \<and> length (filter is_optimizer_step cs)
                = (if learning_starts ag \<le> timestep then 2 * nat (gradient_steps ag) else 0)
            \<and> length (filter is_soft_update cs)
                = (if learning_starts ag \<le> timestep then 2 * nat (gradient_steps ag) else 0)))
   \<and> (timestep < learning_starts sg \<longrightarrow>
      sarsa_post_interaction policy_act timestep n sg
        = Inr (sg\<lparr>calls := calls sg @ [SuperPostInteraction timestep n]\<rparr>))
   \<and> (learning_starts sg \<le> timestep \<longrightarrow>
      sarsa_post_interaction policy_act timestep n sg
        = (case sarsa_update policy_act timestep n sg of
             Inl e \<Rightarrow> Inl e
           | Inr sg' \<Rightarrow> Inr (sg'\<lparr>calls := calls sg' @ [SuperPostInteraction timestep n]\<rparr>)))"
  using ddpg_post_interaction_before [of timestep ag inp n]
    ddpg_post_interaction_after [of ag timestep inp n]
    ddpg_post_interaction_calls [of inp timestep n ag]
  by (simp add: sarsa_post_interaction_def)

theorem post_interaction_gating_witness:
  "ddpg_post_interaction update_inputs_example 4 10 ddpg_example
     = Inr (ddpg_example\<lparr>calls := [SuperPostInteraction 4 10]\<rparr>)
   \<and> map_sum id (filter is_soft_update \<circ> calls)
        (ddpg_post_interaction update_inputs_example 5 10 ddpg_example)
     = Inr [UpdateParameters ''target_policy'' ''policy'' (1 / 200),
            UpdateParameters ''target_critic'' ''critic'' (1 / 200)]
   \<and> sarsa_post_interaction (\<lambda>q s. map (\<lambda>_. 1) s) 0 10 (sarsa_example\<lparr>learning_starts := 1\<rparr>)
     = Inr (sarsa_example\<lparr>learning_starts := 1, calls := [SuperPostInteraction 0 10]\<rparr>)"
proof -
  have u: "ddpg_update update_inputs_example 5 10 ddpg_example
     = Inr (ddpg_example\<lparr>calls :=
         [MemorySample [''states'', ''actions'', ''rewards'', ''next_states'', ''dones''] 2,
          StatePreprocessor True, StatePreprocessor False,
          OptimizerStep ''critic'', OptimizerStep ''policy'',
          UpdateParameters ''target_policy'' ''policy'' (1 / 200),
          UpdateParameters ''target_critic'' ''critic'' (1 / 200),
          TrackData ''Loss / Policy loss'' (- 2),
          TrackData ''Loss / Critic loss'' 0,
          TrackData ''Q-network / Q1 (max)'' 3,
          TrackData ''Q-network / Q1 (min)'' 1,
          TrackData ''Q-network / Q1 (mean)'' 2,
          TrackData ''Target / Target (max)'' 3,
          TrackData ''Target / Target (min)'' 2,
          TrackData ''Target / Target (mean)'' (5 / 2)]\<rparr>)"
    by (simp add: ddpg_update_def ddpg_example_def update_inputs_example_def gradient_step_def
        ddpg_target_values_def logical_not_def mse_loss_def tensor_mean_def tensor_max_def
        tensor_min_def Let_def)
  show ?thesis
    using post_interaction_gating [of 4 ddpg_example update_inputs_example 10 "sarsa_example\<lparr>learning_starts := 1\<rparr>"
        "\<lambda>q s. map (\<lambda>_. 1) s"]
      post_interaction_gating [of 5 ddpg_example update_inputs_example 10 "sarsa_example\<lparr>learning_starts := 1\<rparr>"
        "\<lambda>q s. map (\<lambda>_. 1) s"]
      post_interaction_gating [of 0 ddpg_example update_inputs_example 10 "sarsa_example\<lparr>learning_starts := 1\<rparr>"
        "\<lambda>q s. map (\<lambda>_. 1) s"]
    unfolding u
    by (simp add: ddpg_example_def sarsa_example_def is_soft_update_def)
qed

lemma exploration_scale_ends:
  "decay \<noteq> 0 \<Longrightarrow> exploration_scale 0 decay i f = i"
  "decay \<noteq> 0 \<Longrightarrow> exploration_scale decay decay i f = f"
  by (simp_all add: exploration_scale_def)

lemma ddpg_act_decaying:
  assumes "exploration_noise ag" and "random_timesteps ag \<le> timestep"
    and "decay = (case exploration_timesteps ag of None \<Rightarrow> n | Some d \<Rightarrow> d)"
    and "timestep \<le> decay" and "decay \<noteq> 0" and "concat (noise_sample inp) \<noteq> []"
  shows "ddpg_act inp timestep n ag =
     (let noises = tensor_mul (noise_sample inp)
                     (exploration_scale timestep decay
                        (exploration_initial_scale ag) (exploration_final_scale ag))
      in Inr (clip_actions (backward_compatibility ag) (clip_actions_min ag) (clip_actions_max ag)
                (tensor_add (policy_actions inp) noises),
              ag\<lparr>exploration_timesteps := Some decay,
                 calls := calls ag @
                   [StatePreprocessor False,
                    TrackData ''Exploration / Exploration noise (max)'' (tensor_max (concat noises)),
                    TrackData ''Exploration / Exploration noise (min)'' (tensor_min (concat noises)),
                    TrackData ''Exploration / Exploration noise (mean)''
                      (tensor_mean (concat noises))]\<rparr>))"
proof -
  have ne: "concat (tensor_mul (noise_sample inp) c) \<noteq> []" for c
    using assms(6) by (simp add: tensor_mul_def) 
  show ?thesis
    using assms(1,2,4,5) ne unfolding assms(3) ddpg_act_def Let_def
    by (simp split: option.splits)
qed

lemma ddpg_act_decayed:
  assumes "exploration_noise ag" and "random_timesteps ag \<le> timestep"
    and "decay = (case exploration_timesteps ag of None \<Rightarrow> n | Some d \<Rightarrow> d)"
    and "decay < timestep"
  shows "ddpg_act inp timestep n ag =
     Inr (policy_actions inp,
          ag\<lparr>exploration_timesteps := Some decay,
             calls := calls ag @
               [StatePreprocessor False,
                TrackData ''Exploration / Exploration noise (max)'' 0,
                TrackData ''Exploration / Exploration noise (min)'' 0,
                TrackData ''Exploration / Exploration noise (mean)'' 0]\<rparr>)"
  using assms(1,2,4) unfolding assms(3) ddpg_act_def Let_def
  by (simp split: option.splits)

text \<open>
  Claim C6. With an exploration noise configured and the random timesteps over, let \<open>decay\<close> be
  the configured number of decay timesteps, or the total number of timesteps handed to \<^verbatim>\<open>act\<close>
  when none is configured (it is stored from then on). Up to timestep \<open>decay\<close> (for a non-zero
  \<open>decay\<close> and a non-empty noise tensor) the returned actions are the actions of the policy
  plus the noise times \<open>(1 - timestep / decay) * (initial_scale - final_scale) + final_scale\<close>,
  clipped to the action space, and the maximum, minimum and mean of the scaled noise are
  tracked. The scale is \<open>initial_scale\<close> at timestep 0 and \<open>final_scale\<close> at timestep \<open>decay\<close>.
  After timestep \<open>decay\<close> the actions of the policy are returned as they are and the three
  metrics are tracked with the value 0.
\<close>

theorem exploration_noise_decay:
  assumes "exploration_noise ag" and "random_timesteps ag \<le> timestep"
    and "decay = (case exploration_timesteps ag of None \<Rightarrow> n | Some d \<Rightarrow> d)"
  shows "(timestep \<le> decay \<and> decay \<noteq> 0 \<and> concat (noise_sample inp) \<noteq> [] \<longrightarrow>
            ddpg_act inp timestep n ag =
              (let scale = (1 - real_of_int timestep / real_of_int decay)
                             * (exploration_initial_scale ag - exploration_final_scale ag)
                           + exploration_final_scale ag;
                   noises = tensor_mul (noise_sample inp) scale
               in Inr (clip_actions (backward_compatibility ag)
                         (clip_actions_min ag) (clip_actions_max ag)
                         (tensor_add (policy_actions inp) noises),
                       ag\<lparr>exploration_timesteps := Some decay,
                          calls := calls ag @
                            [StatePreprocessor False,
                             TrackData ''Exploration / Exploration noise (max)''
                               (tensor_max (concat noises)),
                             TrackData ''Exploration / Exploration noise (min)''
                               (tensor_min (concat noises)),
                             TrackData ''Exploration / Exploration noise (mean)''
                               (tensor_mean (concat noises))]\<rparr>)))
       \<and> (decay \<noteq> 0 \<longrightarrow>
            exploration_scale 0 decay (exploration_initial_scale ag) (exploration_final_scale ag)
              = exploration_initial_scale ag
          \<and> exploration_scale decay decay (exploration_initial_scale ag) (exploration_final_scale ag)
              = exploration_final_scale ag)
       \<and> (decay < timestep \<longrightarrow>
            ddpg_act inp timestep n ag =
              Inr (policy_actions inp,
                   ag\<lparr>exploration_timesteps := Some decay,
                      calls := calls ag @
                        [StatePreprocessor False,
                         TrackData ''Exploration / Exploration noise (max)'' 0,
                         TrackData ''Exploration / Exploration noise (min)'' 0,
                         TrackData ''Exploration / Exploration noise (mean)'' 0]\<rparr>))"
proof -
  have a: "timestep \<le> decay \<Longrightarrow> decay \<noteq> 0 \<Longrightarrow> concat (noise_sample inp) \<noteq> [] \<Longrightarrow>
      ddpg_act inp timestep n ag =
        (let scale = (1 - real_of_int timestep / real_of_int decay)
                       * (exploration_initial_scale ag - exploration_final_scale ag)
                     + exploration_final_scale ag;
             noises = tensor_mul (noise_sample inp) scale
         in Inr (clip_actions (backward_compatibility ag)
                   (clip_actions_min ag) (clip_actions_max ag)
                   (tensor_add (policy_actions inp) noises),
                 ag\<lparr>exploration_timesteps := Some decay,
                    calls := calls ag @
                      [StatePreprocessor False,
                       TrackData ''Exploration / Exploration noise (max)''
                         (tensor_max (concat noises)),
                       TrackData ''Exploration / Exploration noise (min)''
                         (tensor_min (concat noises)),
                       TrackData ''Exploration / Exploration noise (mean)''
                         (tensor_mean (concat noises))]\<rparr>))"
    using ddpg_act_decaying [OF assms, of inp] by (simp add: Let_def exploration_scale_def)
  have b: "decay < timestep \<Longrightarrow>
      ddpg_act inp timestep n ag =
        Inr (policy_actions inp,
             ag\<lparr>exploration_timesteps := Some decay,
                calls := calls ag @
                  [StatePreprocessor False,
                   TrackData ''Exploration / Exploration noise (max)'' 0,
                   TrackData ''Exploration / Exploration noise (min)'' 0,
                   TrackData ''Exploration / Exploration noise (mean)'' 0]\<rparr>)"
    using ddpg_act_decayed [OF assms, of inp] .
  show ?thesis using a b exploration_scale_ends [of decay] by blast
qed

theorem exploration_noise_decay_witness:
  "ddpg_act act_inputs_example 5 10 ddpg_example =
     Inr ([[1]],
          ddpg_example\<lparr>exploration_timesteps := Some 10,
             calls := [StatePreprocessor False,
                       TrackData ''Exploration / Exploration noise (max)'' (11 / 10),
                       TrackData ''Exploration / Exploration noise (min)'' (11 / 10),
                       TrackData ''Exploration / Exploration noise (mean)'' (11 / 10)]\<rparr>)
   \<and> ddpg_act act_inputs_example 10 10 ddpg_example =
     Inr ([[7 / 10]],
          ddpg_example\<lparr>exploration_timesteps := Some 10,
             calls := [StatePreprocessor False,
                       TrackData ''Exploration / Exploration noise (max)'' (1 / 5),
                       TrackData ''Exploration / Exploration noise (min)'' (1 / 5),
                       TrackData ''Exploration / Exploration noise (mean)'' (1 / 5)]\<rparr>)
   \<and> exploration_scale 0 10 1 (1 / 10) = 1
   \<and> exploration_scale 10 10 1 (1 / 10) = 1 / 10
   \<and> ddpg_act act_inputs_example 11 10 ddpg_example =
     Inr ([[1 / 2]],
          ddpg_example\<lparr>exploration_timesteps := Some 10,
             calls := [StatePreprocessor False,
                       TrackData ''Exploration / Exploration noise (max)'' 0,
                       TrackData ''Exploration / Exploration noise (min)'' 0,
                       TrackData ''Exploration / Exploration noise (mean)'' 0]\<rparr>)"
  using exploration_noise_decay [of ddpg_example 5 10 10 act_inputs_example]
    exploration_noise_decay [of ddpg_example 10 10 10 act_inputs_example]
    exploration_noise_decay [of ddpg_example 11 10 10 act_inputs_example]
  by (simp add: ddpg_example_def act_inputs_example_def Let_def tensor_mul_def tensor_add_def
      clip_actions_def tensor_max_def tensor_min_def tensor_mean_def)

section \<open>Properties of the loops and of the single agent\<close>

lemma logging_trainer_constructed:
  "Trainer 1 (Agents [logging_agent]) [] \<lparr>cfg_timesteps = Some 1, cfg_headless = None\<rparr>
     = Inr logging_trainer"
  by (simp add: Trainer_def setup_agents_def logging_trainer_def)













section \<open>Properties of the mixin\<close>










end
